theory Spec2Isabelle
  imports Complex_Main
begin

section \<open>Values, errors and calendar dates\<close>

text \<open>
  The programs compute on IEEE doubles; the model computes on the reals, so rounding is
  not part of it. What a double can be besides a number is kept where the code can
  produce it: a null (NaN) trend is \<open>None\<close> in a \<open>real option\<close>, and the quotient of a
  pandas division is an \<open>np_float\<close>.
\<close>

datatype error = ZeroDivisionError | ValueError

datatype np_float = Fin real | PInf | NInf | NaN

text \<open>A parsed timestamp, reduced to its calendar date (the inputs are daily records).\<close>

record fecha =
  year :: int
  month :: nat
  day :: nat

definition is_leap_year :: "int \<Rightarrow> bool" where
  "is_leap_year y = (y mod 4 = 0 \<and> (y mod 100 \<noteq> 0 \<or> y mod 400 = 0))"

definition days_in_month :: "int \<Rightarrow> nat \<Rightarrow> nat" where
  "days_in_month y m =
     (if m = 2 then (if is_leap_year y then 29 else 28)
      else if m = 4 \<or> m = 6 \<or> m = 9 \<or> m = 11 then 30 else 31)"

definition dayofyear :: "fecha \<Rightarrow> nat" where
  "dayofyear ts = (\<Sum>m\<leftarrow>[1..<month ts]. days_in_month (year ts) m) + day ts"

definition toordinal :: "fecha \<Rightarrow> int" where
  "toordinal ts =
     (let y = year ts - 1
      in y * 365 + y div 4 - y div 100 + y div 400 + int (dayofyear ts))"

section \<open>Observations and feature rows\<close>

text \<open>
  One record of the input table, with the columns \<open>validar_csv\<close> requires. The type of
  the date and of the numbers is a parameter: a row as read from the CSV file has
  nullable cells, \<open>DatosEntrada\<close> has a text date and plain numbers, and inside
  \<open>crear_features\<close> the date is a parsed timestamp.
\<close>

record ('d, 'v) registro =
  date :: 'd
  ndvi :: 'v
  evi :: 'v
  lst :: 'v
  tmax :: 'v
  tmin :: 'v
  soil_humidity :: 'v

type_synonym fila_csv = "(string option, real option) registro"
type_synonym DatosEntrada = "(string, real) registro"

text \<open>
  A row of the table \<open>crear_features\<close> returns: the input columns and every column the
  function adds (the day-of-year column is spelt \<open>dia_anio\<close> here).
\<close>

record fila = "(fecha, real) registro" +
  ndvi_promedio_7d :: real
  ndvi_tendencia_7d :: "real option"
  humedad_promedio_7d :: real
  humedad_tendencia_7d :: "real option"
  lst_max_7d :: real
  tmax_promedio_7d :: real
  ndvi_promedio_14d :: real
  ndvi_tendencia_14d :: "real option"
  humedad_promedio_14d :: real
  humedad_tendencia_14d :: "real option"
  lst_max_14d :: real
  tmax_promedio_14d :: real
  evi_ndvi_ratio :: np_float
  temp_promedio :: real
  amplitud_termica :: real
  deficit_combinado :: real
  mes :: nat
  dia_anio :: nat
  dias_desde_inicio :: int
  estres_nivel :: nat
  estres_etiqueta :: "string option"

section \<open>The pandas column operations the code calls\<close>

text \<open>\<open>Series.clip(lower, upper)\<close>.\<close>

definition clip :: "real \<Rightarrow> real \<Rightarrow> real \<Rightarrow> real" where
  "clip lower upper x = min upper (max lower x)"

text \<open>
  \<open>Series.rolling(window, min_periods=1)\<close>: the window of row \<open>i\<close> is the rows
  \<open>i - window + 1 .. i\<close> that exist. pandas rejects \<open>window = 0\<close> with
  \<open>min_periods = 1\<close>; the code uses the windows 7 and 14.
\<close>

definition ventana_en :: "nat \<Rightarrow> 'a list \<Rightarrow> nat \<Rightarrow> 'a list" where
  "ventana_en window xs i = drop (Suc i - window) (take (Suc i) xs)"

definition mean :: "real list \<Rightarrow> real" where
  "mean ys = sum_list ys / real (length ys)"

definition rolling_mean :: "nat \<Rightarrow> real list \<Rightarrow> real list" where
  "rolling_mean window xs = map (\<lambda>i. mean (ventana_en window xs i)) [0..<length xs]"

definition rolling_max :: "nat \<Rightarrow> real list \<Rightarrow> real list" where
  "rolling_max window xs = map (\<lambda>i. Max (set (ventana_en window xs i))) [0..<length xs]"

text \<open>
  \<open>Series.diff(periods)\<close> is the column minus the column shifted down by \<open>periods\<close>
  rows; the rows shifted in are null, and so is a difference with a null.
\<close>

definition shift :: "nat \<Rightarrow> real list \<Rightarrow> real option list" where
  "shift periods xs =
     replicate (min periods (length xs)) None @ map Some (take (length xs - periods) xs)"

definition resta_nan :: "real \<Rightarrow> real option \<Rightarrow> real option" where
  "resta_nan a b = (case b of None \<Rightarrow> None | Some v \<Rightarrow> Some (a - v))"

definition diff :: "nat \<Rightarrow> real list \<Rightarrow> real option list" where
  "diff periods xs = map2 resta_nan xs (shift periods xs)"

text \<open>
  \<open>Series.quantile(q)\<close> with the default linear interpolation between the two order
  statistics around position \<open>q * (n - 1)\<close>; null on an empty column.
\<close>

definition quantile :: "real list \<Rightarrow> real \<Rightarrow> real option" where
  "quantile xs q =
     (if xs = [] then None
      else let v = sort xs;
               pos = q * real (length xs - 1);
               lo = nat \<lfloor>pos\<rfloor>;
               hi = nat \<lceil>pos\<rceil>
           in Some (v ! lo + (v ! hi - v ! lo) * (pos - real lo)))"

text \<open>Comparisons of doubles: any comparison with a null is false.\<close>

definition lt_nan :: "real option \<Rightarrow> real option \<Rightarrow> bool" where
  "lt_nan a b = (case (a, b) of (Some x, Some y) \<Rightarrow> x < y | _ \<Rightarrow> False)"

definition gt_nan :: "real option \<Rightarrow> real option \<Rightarrow> bool" where
  "gt_nan a b = (case (a, b) of (Some x, Some y) \<Rightarrow> x > y | _ \<Rightarrow> False)"

text \<open>Division of two float columns: no exception; a zero divisor gives inf or NaN.\<close>

definition np_div :: "real \<Rightarrow> real \<Rightarrow> np_float" where
  "np_div a b =
     (if b \<noteq> 0 then Fin (a / b)
      else if a > 0 then PInf else if a < 0 then NInf else NaN)"

section \<open>2_ingenieria_features.py\<close>

text \<open>
  \<open>pd.to_datetime\<close> is a parameter \<open>to_datetime\<close> of the model: it gives the timestamp
  of a text, or \<open>None\<close> where pandas raises on a text it cannot read.
\<close>

definition parse_dates ::
  "(string \<Rightarrow> fecha option) \<Rightarrow> (string, real) registro list \<Rightarrow> (fecha, real) registro list option"
where
  "parse_dates to_datetime df =
     those (map (\<lambda>r. map_option
                        (\<lambda>ts. \<lparr>date = ts, ndvi = ndvi r, evi = evi r, lst = lst r,
                                tmax = tmax r, tmin = tmin r, soil_humidity = soil_humidity r\<rparr>)
                        (to_datetime (date r))) df)"

text \<open>
  \<open>df.sort_values('date').reset_index(drop=True)\<close>. The order of rows with the same date
  is the order a stable sort gives; pandas does not promise one, and no fact below depends
  on it.
\<close>

definition sort_values :: "(fecha, real) registro list \<Rightarrow> (fecha, real) registro list" where
  "sort_values df = sort_key (\<lambda>r. toordinal (date r)) df"

text \<open>The percentile thresholds of lines 65 to 69.\<close>

record umbrales =
  p25_humedad :: "real option"
  p50_humedad :: "real option"
  p25_ndvi :: "real option"
  p50_ndvi :: "real option"
  p75_lst :: "real option"

definition calcular_umbrales :: "(fecha, real) registro list \<Rightarrow> umbrales" where
  "calcular_umbrales df =
     \<lparr>p25_humedad = quantile (map soil_humidity df) 0.25,
      p50_humedad = quantile (map soil_humidity df) 0.50,
      p25_ndvi = quantile (map ndvi df) 0.25,
      p50_ndvi = quantile (map ndvi df) 0.50,
      p75_lst = quantile (map lst df) 0.75\<rparr>"

text \<open>The composite deficit of lines 40 to 54.\<close>

definition humedad_norm :: "real \<Rightarrow> real" where
  "humedad_norm h = clip 0 1 (h / 35.0)"

definition temp_norm :: "real \<Rightarrow> real" where
  "temp_norm l = clip 0 1 ((l - 25) / 20)"

definition deficit :: "real \<Rightarrow> real \<Rightarrow> real \<Rightarrow> real" where
  "deficit h l n = clip 0 1 ((1 - humedad_norm h) * 0.5 + temp_norm l * 0.3 + (1 - n) * 0.2)"

text \<open>The two masks of lines 79 to 83 and 87 to 91, for one row.\<close>

definition estres_moderado ::
  "umbrales \<Rightarrow> real \<Rightarrow> real \<Rightarrow> real \<Rightarrow> real option \<Rightarrow> bool"
where
  "estres_moderado u h n d t7 =
     ((lt_nan (Some h) (p50_humedad u) \<and> lt_nan (Some n) (p50_ndvi u)) \<or>
      (d > 0.4 \<and> lt_nan (Some h) (p50_humedad u)) \<or>
      (lt_nan t7 (Some (- 0.03)) \<and> lt_nan (Some h) (p50_humedad u)))"

definition estres_severo ::
  "umbrales \<Rightarrow> real \<Rightarrow> real \<Rightarrow> real \<Rightarrow> real option \<Rightarrow> bool"
where
  "estres_severo u h n l t14 =
     (lt_nan (Some h) (p25_humedad u) \<or>
      (lt_nan (Some n) (p25_ndvi u) \<and> lt_nan (Some h) (p50_humedad u)) \<or>
      (gt_nan (Some l) (p75_lst u) \<and> lt_nan t14 (Some (- 0.05))))"

text \<open>The dictionary of line 95; \<open>Series.map\<close> gives null for a key it does not have.\<close>

definition etiquetas :: "nat \<rightharpoonup> string" where
  "etiquetas = [0 \<mapsto> ''sin_estres'', 1 \<mapsto> ''estres_moderado'', 2 \<mapsto> ''estres_severo'']"

text \<open>
  Row \<open>i\<close> of the result, from the sorted table \<open>df\<close> and its thresholds \<open>u\<close>. The level
  is assigned as the code does: 0, then 1 under the moderate mask, then 2 under the
  severe mask.
\<close>

definition fila_en :: "(fecha, real) registro list \<Rightarrow> umbrales \<Rightarrow> nat \<Rightarrow> fila" where
  "fila_en df u i =
     (let r = df ! i;
          t7 = diff 7 (map ndvi df) ! i;
          t14 = diff 14 (map ndvi df) ! i;
          d = deficit (soil_humidity r) (lst r) (ndvi r);
          nivel = 0;
          nivel = (if estres_moderado u (soil_humidity r) (ndvi r) d t7 then 1 else nivel);
          nivel = (if estres_severo u (soil_humidity r) (ndvi r) (lst r) t14 then 2 else nivel)
      in \<lparr>date = date r, ndvi = ndvi r, evi = evi r, lst = lst r,
          tmax = tmax r, tmin = tmin r, soil_humidity = soil_humidity r,
          ndvi_promedio_7d = rolling_mean 7 (map ndvi df) ! i,
          ndvi_tendencia_7d = t7,
          humedad_promedio_7d = rolling_mean 7 (map soil_humidity df) ! i,
          humedad_tendencia_7d = diff 7 (map soil_humidity df) ! i,
          lst_max_7d = rolling_max 7 (map lst df) ! i,
          tmax_promedio_7d = rolling_mean 7 (map tmax df) ! i,
          ndvi_promedio_14d = rolling_mean 14 (map ndvi df) ! i,
          ndvi_tendencia_14d = t14,
          humedad_promedio_14d = rolling_mean 14 (map soil_humidity df) ! i,
          humedad_tendencia_14d = diff 14 (map soil_humidity df) ! i,
          lst_max_14d = rolling_max 14 (map lst df) ! i,
          tmax_promedio_14d = rolling_mean 14 (map tmax df) ! i,
          evi_ndvi_ratio = np_div (evi r) (ndvi r + 0.001),
          temp_promedio = (tmax r + tmin r) / 2,
          amplitud_termica = tmax r - tmin r,
          deficit_combinado = d,
          mes = month (date r),
          dia_anio = dayofyear (date r),
          dias_desde_inicio = toordinal (date r) - Min (set (map (\<lambda>x. toordinal (date x)) df)),
          estres_nivel = nivel,
          estres_etiqueta = etiquetas nivel\<rparr>)"

definition crear_features ::
  "(string \<Rightarrow> fecha option) \<Rightarrow> (string, real) registro list \<Rightarrow> error + fila list"
where
  "crear_features to_datetime df0 =
     (case parse_dates to_datetime df0 of
        None \<Rightarrow> Inl ValueError
      | Some parsed \<Rightarrow>
          (let df = sort_values parsed;
               u = calcular_umbrales df
           in Inr (map (fila_en df u) [0..<length df])))"

text \<open>
  \<open>procesar_datos\<close>: the table read from the file, \<open>dropna\<close>, then \<open>crear_features\<close>
  (reading and writing the files are not modelled). \<open>dropna\<close> keeps the rows with no
  null cell.
\<close>

definition dropna :: "fila_csv list \<Rightarrow> (string, real) registro list" where
  "dropna df =
     List.map_filter
       (\<lambda>r. case (date r, ndvi r, evi r, lst r, tmax r, tmin r, soil_humidity r) of
               (Some d, Some n, Some e, Some l, Some tx, Some tn, Some h) \<Rightarrow>
                 Some \<lparr>date = d, ndvi = n, evi = e, lst = l, tmax = tx, tmin = tn,
                       soil_humidity = h\<rparr>
             | _ \<Rightarrow> None) df"

definition procesar_datos ::
  "(string \<Rightarrow> fecha option) \<Rightarrow> fila_csv list \<Rightarrow> error + fila list"
where
  "procesar_datos to_datetime df = crear_features to_datetime (dropna df)"

section \<open>3_entrenamiento_modelo.py\<close>

text \<open>
  The head of \<open>entrenar_modelo\<close>: \<open>dropna\<close> over the feature columns and the level,
  then the check of the number of classes. A null can stand in a trend column and in
  the ratio column; the other columns are numbers. What follows the check (split,
  scaling, fitting, plots, saving) is the parameter \<open>fit\<close>.
\<close>

definition fila_nula :: "fila \<Rightarrow> bool" where
  "fila_nula r =
     (ndvi_tendencia_7d r = None \<or> ndvi_tendencia_14d r = None \<or>
      humedad_tendencia_7d r = None \<or> humedad_tendencia_14d r = None \<or>
      evi_ndvi_ratio r = NaN)"

definition dropna_features :: "fila list \<Rightarrow> fila list" where
  "dropna_features df = filter (\<lambda>r. \<not> fila_nula r) df"

definition nunique :: "nat list \<Rightarrow> nat" where
  "nunique y = length (remdups y)"

definition entrenar_modelo :: "(fila list \<Rightarrow> 'm) \<Rightarrow> fila list \<Rightarrow> 'm option" where
  "entrenar_modelo fit df =
     (let df_limpio = dropna_features df;
          y = map estres_nivel df_limpio;
          clases_unicas = nunique y
      in if clases_unicas < 2 then None else Some (fit df_limpio))"

section \<open>4_api_prediccion.py\<close>

text \<open>\<open>str\<close> of a natural number, as the f-strings of the loop over the windows use it.\<close>

function str :: "nat \<Rightarrow> string" where
  "str n = (if n < 10 then [char_of (48 + n)] else str (n div 10) @ [char_of (48 + n mod 10)])"
  by pat_completeness auto
termination
  by (relation "measure id") auto

declare str.simps [simp del]

text \<open>The key of the day-of-year entry, with its n-tilde as the two bytes of UTF-8.\<close>

definition dia_anio_key :: string where
  "dia_anio_key = ''dia_a'' @ [char_of (195::nat), char_of (177::nat)] @ ''o''"

text \<open>
  The entries the loop of lines 89 to 95 stores for one window.
\<close>

definition features_ventana :: "DatosEntrada \<Rightarrow> nat \<Rightarrow> (string \<rightharpoonup> real) \<Rightarrow> (string \<rightharpoonup> real)" where
  "features_ventana datos ventana features_dict =
     features_dict
       (''ndvi_promedio_'' @ str ventana @ ''d'' \<mapsto> ndvi datos,
        ''ndvi_tendencia_'' @ str ventana @ ''d'' \<mapsto> 0,
        ''humedad_promedio_'' @ str ventana @ ''d'' \<mapsto> soil_humidity datos,
        ''humedad_tendencia_'' @ str ventana @ ''d'' \<mapsto> 0,
        ''lst_max_'' @ str ventana @ ''d'' \<mapsto> lst datos,
        ''tmax_promedio_'' @ str ventana @ ''d'' \<mapsto> tmax datos)"

text \<open>
  \<open>calcular_features\<close>. The values of the dictionary literal are evaluated in order:
  the Python division of line 71 raises on a zero divisor before the date is parsed on
  line 83.
\<close>

definition calcular_features ::
  "(string \<Rightarrow> fecha option) \<Rightarrow> DatosEntrada \<Rightarrow> error + (string \<rightharpoonup> real)"
where
  "calcular_features to_datetime datos =
     (if ndvi datos + 0.001 = 0 then Inl ZeroDivisionError
      else case to_datetime (date datos) of
        None \<Rightarrow> Inl ValueError
      | Some ts \<Rightarrow>
          (let features_dict =
                 [''ndvi'' \<mapsto> ndvi datos,
                  ''evi'' \<mapsto> evi datos,
                  ''lst'' \<mapsto> lst datos,
                  ''tmax'' \<mapsto> tmax datos,
                  ''tmin'' \<mapsto> tmin datos,
                  ''soil_humidity'' \<mapsto> soil_humidity datos,
                  ''evi_ndvi_ratio'' \<mapsto> evi datos / (ndvi datos + 0.001),
                  ''temp_promedio'' \<mapsto> (tmax datos + tmin datos) / 2,
                  ''amplitud_termica'' \<mapsto> tmax datos - tmin datos,
                  ''deficit_combinado'' \<mapsto>
                     (1 - soil_humidity datos / 35) * 0.5 +
                     ((lst datos - 25) / 20) * 0.3 +
                     (1 - ndvi datos) * 0.2,
                  ''mes'' \<mapsto> real (month ts),
                  dia_anio_key \<mapsto> real (dayofyear ts),
                  ''dias_desde_inicio'' \<mapsto> 0]
           in Inr (fold (features_ventana datos) [7, 14] features_dict)))"

text \<open>One entry of the dictionary \<open>calcular_features\<close> returns, or its error.\<close>

definition valor :: "string \<Rightarrow> error + (string \<rightharpoonup> real) \<Rightarrow> error + real option" where
  "valor k res = map_sum id (\<lambda>f. f k) res"

section \<open>A date reader to run the model with\<close>

text \<open>
  An instance of the parameter \<open>to_datetime\<close> for evaluating the model on concrete
  tables: it reads \<open>DD/MM/YYYY\<close> and \<open>YYYY-MM-DD\<close> and nothing else. The theorems hold
  for every reader.
\<close>

definition digito :: "char \<Rightarrow> nat option" where
  "digito c = (let k = (of_char c :: nat) in if 48 \<le> k \<and> k \<le> 57 then Some (k - 48) else None)"

definition numero :: "string \<Rightarrow> nat option" where
  "numero s =
     (if s = [] then None
      else map_option (\<lambda>ds. fold (\<lambda>d acc. 10 * acc + d) ds 0) (those (map digito s)))"

definition fecha_valida :: "nat \<Rightarrow> nat \<Rightarrow> nat \<Rightarrow> fecha option" where
  "fecha_valida y m d =
     (if 1 \<le> m \<and> m \<le> 12 \<and> 1 \<le> d \<and> d \<le> days_in_month (int y) m
      then Some \<lparr>year = int y, month = m, day = d\<rparr> else None)"

definition leer_fecha :: "string \<Rightarrow> fecha option" where
  "leer_fecha s =
     (if length s = 10 \<and> s ! 2 = CHR ''/'' \<and> s ! 5 = CHR ''/'' then
        (case (numero (take 2 s), numero (take 2 (drop 3 s)), numero (drop 6 s)) of
           (Some d, Some m, Some y) \<Rightarrow> fecha_valida y m d
         | _ \<Rightarrow> None)
      else if length s = 10 \<and> s ! 4 = CHR ''-'' \<and> s ! 7 = CHR ''-'' then
        (case (numero (take 4 s), numero (take 2 (drop 5 s)), numero (drop 8 s)) of
           (Some y, Some m, Some d) \<Rightarrow> fecha_valida y m d
         | _ \<Rightarrow> None)
      else None)"

section \<open>Concrete inputs\<close>

text \<open>The observation of the specification's single-point example.\<close>

definition obs_spec :: DatosEntrada where
  "obs_spec = \<lparr>date = ''2024-06-15'', ndvi = 0.6, evi = 0.5, lst = 30, tmax = 28, tmin = 15,
                soil_humidity = 20\<rparr>"

text \<open>A hot, dry, sparsely vegetated observation, and one whose NDVI is just below zero.\<close>

definition obs_seca :: DatosEntrada where
  "obs_seca = \<lparr>date = ''2024-06-15'', ndvi = 0.1, evi = 0.1, lst = 50, tmax = 40, tmin = 25,
                soil_humidity = 2\<rparr>"

definition obs_ndvi_neg :: DatosEntrada where
  "obs_ndvi_neg = \<lparr>date = ''2024-06-15'', ndvi = - 0.001, evi = 0.5, lst = 30, tmax = 28,
                    tmin = 15, soil_humidity = 20\<rparr>"

text \<open>A table of four days, not in date order, and the table \<open>crear_features\<close> returns on it.\<close>

definition tabla_ej :: "(string, real) registro list" where
  "tabla_ej =
     [\<lparr>date = ''15/06/2024'', ndvi = 0.8, evi = 0.6, lst = 30, tmax = 28, tmin = 15,
       soil_humidity = 30\<rparr>,
      \<lparr>date = ''12/06/2024'', ndvi = 0.3, evi = 0.2, lst = 30, tmax = 29, tmin = 16,
       soil_humidity = 10\<rparr>,
      \<lparr>date = ''14/06/2024'', ndvi = 0.7, evi = 0.5, lst = 30, tmax = 27, tmin = 14,
       soil_humidity = 22\<rparr>,
      \<lparr>date = ''13/06/2024'', ndvi = 0.5, evi = 0.4, lst = 30, tmax = 30, tmin = 17,
       soil_humidity = 18\<rparr>]"

definition salida_ej :: "fila list" where
  "salida_ej = projr (crear_features leer_fecha tabla_ej)"

text \<open>A file of three rows, the second with an empty NDVI cell, and the table
  \<open>procesar_datos\<close> returns on it.\<close>

definition csv_ej :: "fila_csv list" where
  "csv_ej =
     [\<lparr>date = Some ''14/06/2024'', ndvi = Some 0.6, evi = Some 0.5, lst = Some 30,
       tmax = Some 28, tmin = Some 15, soil_humidity = Some 20\<rparr>,
      \<lparr>date = Some ''15/06/2024'', ndvi = None, evi = Some 0.5, lst = Some 31,
       tmax = Some 29, tmin = Some 16, soil_humidity = Some 19\<rparr>,
      \<lparr>date = Some ''16/06/2024'', ndvi = Some 0.5, evi = Some 0.4, lst = Some 32,
       tmax = Some 30, tmin = Some 17, soil_humidity = Some 12\<rparr>]"

definition salida_csv :: "fila list" where
  "salida_csv = projr (procesar_datos leer_fecha csv_ej)"

section \<open>Facts about the column operations\<close>

lemma length_shift: "length (shift p xs) = length xs"
  by (simp add: shift_def)

lemma shift_nth:
  assumes "i < length xs"
  shows "shift p xs ! i = (if i < p then None else Some (xs ! (i - p)))"
proof (cases "i < p")
  case True
  with assms have "i < min p (length xs)" by simp
  then show ?thesis using True by (simp add: shift_def nth_append)
next
  case False
  with assms have "min p (length xs) = p" "i - p < length xs - p" by simp_all
  then show ?thesis using False by (simp add: shift_def nth_append)
qed

lemma length_diff: "length (diff p xs) = length xs"
  by (simp add: diff_def length_shift)

lemma diff_nth:
  assumes "i < length xs"
  shows "diff p xs ! i = (if i < p then None else Some (xs ! i - xs ! (i - p)))"
  using assms by (simp add: diff_def length_shift shift_nth resta_nan_def)

lemma length_rolling_mean: "length (rolling_mean w xs) = length xs"
  by (simp add: rolling_mean_def)

lemma length_rolling_max: "length (rolling_max w xs) = length xs"
  by (simp add: rolling_max_def)

lemma rolling_mean_nth:
  "i < length xs \<Longrightarrow> rolling_mean w xs ! i = mean (ventana_en w xs i)"
  by (simp add: rolling_mean_def)

lemma length_ventana_en:
  "i < length xs \<Longrightarrow> length (ventana_en w xs i) = min w (Suc i)"
  by (auto simp: ventana_en_def)

lemma sum_list_drop_take:
  assumes "b \<le> length xs"
  shows "sum_list (drop a (take b xs)) = (\<Sum>j = a..<b. (xs ! j :: real))"
proof (cases "a \<le> b")
  case True
  have "sum_list (drop a (take b xs)) = (\<Sum>i = 0..<b - a. drop a (take b xs) ! i)"
    using assms by (simp add: sum_list_sum_nth)
  also have "\<dots> = (\<Sum>i = 0..<b - a. xs ! (i + a))"
    using assms True by (intro sum.cong) (auto simp: add.commute)
  also have "\<dots> = (\<Sum>j = 0 + a..<(b - a) + a. xs ! j)"
    by (simp only: sum.shift_bounds_nat_ivl)
  finally show ?thesis using True by simp
next
  case False
  then show ?thesis by simp
qed

lemma rolling_mean_window:
  assumes "i < length xs"
  shows "rolling_mean w xs ! i =
         (\<Sum>j = Suc i - min w (Suc i)..<Suc i. xs ! j) / real (min w (Suc i))"
proof -
  have "Suc i - w = Suc i - min w (Suc i)" by simp
  with assms show ?thesis
    by (simp only: rolling_mean_nth mean_def length_ventana_en)
       (simp add: ventana_en_def sum_list_drop_take)
qed

lemma rolling_mean_first:
  assumes "xs \<noteq> []" "0 < w"
  shows "rolling_mean w xs ! 0 = xs ! 0"
proof -
  from assms have "0 < length xs" by simp
  then show ?thesis using assms(2) by (simp add: rolling_mean_window)
qed

lemma diff_short:
  assumes "length xs < w" "t \<in> set (diff w xs)"
  shows "t = None"
proof -
  from assms(2) obtain i where "i < length xs" "t = diff w xs ! i"
    by (auto simp: in_set_conv_nth length_diff)
  with assms(1) show ?thesis by (simp add: diff_nth)
qed

section \<open>Facts about the table of \<open>crear_features\<close>\<close>

lemma those_length: "those xs = Some ys \<Longrightarrow> length ys = length xs"
  by (induction xs arbitrary: ys) (auto split: option.splits)

lemma parse_dates_length: "parse_dates p df0 = Some df \<Longrightarrow> length df = length df0"
  unfolding parse_dates_def by (drule those_length) simp

lemma crear_features_Inr:
  assumes "crear_features p df0 = Inr out"
  obtains d0 where "parse_dates p df0 = Some d0"
    and "out = map (fila_en (sort_values d0) (calcular_umbrales (sort_values d0))) [0..<length d0]"
  using assms by (auto simp: crear_features_def Let_def sort_values_def split: option.splits)

lemma crear_features_Inl:
  "crear_features p df0 = Inl e \<Longrightarrow> e = ValueError \<and> parse_dates p df0 = None"
  by (auto simp: crear_features_def Let_def split: option.splits)

lemma length_sort_values: "length (sort_values df) = length df"
  by (simp add: sort_values_def)

lemma fila_en_cols:
  "ndvi (fila_en df u i) = ndvi (df ! i)"
  "soil_humidity (fila_en df u i) = soil_humidity (df ! i)"
  "lst (fila_en df u i) = lst (df ! i)"
  "tmax (fila_en df u i) = tmax (df ! i)"
  by (simp_all add: fila_en_def Let_def)

lemma map_fila_en_col:
  assumes "\<And>i. f (fila_en df u i) = g (df ! i)"
  shows "map f (map (fila_en df u) [0..<length df]) = map g df"
proof (rule nth_equalityI)
  show "length (map f (map (fila_en df u) [0..<length df])) = length (map g df)" by simp
next
  fix i assume "i < length (map f (map (fila_en df u) [0..<length df]))"
  then have "i < length df" by simp
  then show "map f (map (fila_en df u) [0..<length df]) ! i = map g df ! i"
    by (simp only: nth_map length_map length_upt nth_upt assms) simp
qed

lemma crear_features_tabla:
  assumes "crear_features p df0 = Inr out"
  obtains df where "out = map (fila_en df (calcular_umbrales df)) [0..<length df]"
    and "length df = length df0"
    and "map ndvi out = map ndvi df" and "map soil_humidity out = map soil_humidity df"
    and "map lst out = map lst df" and "map tmax out = map tmax df"
proof -
  from assms obtain d0 where d0: "parse_dates p df0 = Some d0"
    and out: "out = map (fila_en (sort_values d0) (calcular_umbrales (sort_values d0))) [0..<length d0]"
    by (rule crear_features_Inr)
  let ?df = "sort_values d0"
  have o: "out = map (fila_en ?df (calcular_umbrales ?df)) [0..<length ?df]"
    using out by (simp only: length_sort_values)
  show ?thesis
  proof (rule that[of ?df])
    show "out = map (fila_en ?df (calcular_umbrales ?df)) [0..<length ?df]" by (rule o)
    show "length ?df = length df0" using d0 by (simp add: length_sort_values parse_dates_length)
    show "map ndvi out = map ndvi ?df" unfolding o by (rule map_fila_en_col) (rule fila_en_cols)
    show "map soil_humidity out = map soil_humidity ?df" unfolding o by (rule map_fila_en_col) (rule fila_en_cols)
    show "map lst out = map lst ?df" unfolding o by (rule map_fila_en_col) (rule fila_en_cols)
    show "map tmax out = map tmax ?df" unfolding o by (rule map_fila_en_col) (rule fila_en_cols)
  qed
qed

lemma crear_features_nth:
  assumes "crear_features p df0 = Inr out" "i < length out"
  obtains df where "out ! i = fila_en df (calcular_umbrales df) i"
    and "i < length df" and "length out = length df" and "length df = length df0"
    and "map ndvi out = map ndvi df" and "map soil_humidity out = map soil_humidity df"
    and "map lst out = map lst df" and "map tmax out = map tmax df"
proof -
  from assms(1) obtain df where o: "out = map (fila_en df (calcular_umbrales df)) [0..<length df]"
    and l: "length df = length df0"
    and c: "map ndvi out = map ndvi df" "map soil_humidity out = map soil_humidity df"
      "map lst out = map lst df" "map tmax out = map tmax df"
    by (rule crear_features_tabla)
  from o have lo: "length out = length df" by simp
  with assms(2) have i: "i < length df" by simp
  then have "out ! i = fila_en df (calcular_umbrales df) i" unfolding o by simp
  then show ?thesis using i lo l c by (rule that)
qed

lemma fila_en_windows:
  "ndvi_tendencia_7d (fila_en df u i) = diff 7 (map ndvi df) ! i"
  "ndvi_tendencia_14d (fila_en df u i) = diff 14 (map ndvi df) ! i"
  "humedad_tendencia_7d (fila_en df u i) = diff 7 (map soil_humidity df) ! i"
  "humedad_tendencia_14d (fila_en df u i) = diff 14 (map soil_humidity df) ! i"
  "ndvi_promedio_7d (fila_en df u i) = rolling_mean 7 (map ndvi df) ! i"
  "ndvi_promedio_14d (fila_en df u i) = rolling_mean 14 (map ndvi df) ! i"
  "humedad_promedio_7d (fila_en df u i) = rolling_mean 7 (map soil_humidity df) ! i"
  "humedad_promedio_14d (fila_en df u i) = rolling_mean 14 (map soil_humidity df) ! i"
  "tmax_promedio_7d (fila_en df u i) = rolling_mean 7 (map tmax df) ! i"
  "tmax_promedio_14d (fila_en df u i) = rolling_mean 14 (map tmax df) ! i"
  "lst_max_7d (fila_en df u i) = rolling_max 7 (map lst df) ! i"
  "lst_max_14d (fila_en df u i) = rolling_max 14 (map lst df) ! i"
  by (simp_all add: fila_en_def Let_def)

lemma col_of_tabla:
  assumes "\<And>i. f (fila_en df u i) = ys ! i" "length ys = length df"
  shows "map f (map (fila_en df u) [0..<length df]) = ys"
proof (rule nth_equalityI)
  show "length (map f (map (fila_en df u) [0..<length df])) = length ys"
    using assms(2) by simp
next
  fix i assume "i < length (map f (map (fila_en df u) [0..<length df]))"
  then have "i < length df" by simp
  then show "map f (map (fila_en df u) [0..<length df]) ! i = ys ! i"
    by (simp only: nth_map length_map length_upt nth_upt assms(1)) simp
qed

lemma crear_features_columnas:
  assumes "crear_features p df0 = Inr out"
  shows "map ndvi_tendencia_7d out = diff 7 (map ndvi out)"
    and "map ndvi_tendencia_14d out = diff 14 (map ndvi out)"
    and "map humedad_tendencia_7d out = diff 7 (map soil_humidity out)"
    and "map humedad_tendencia_14d out = diff 14 (map soil_humidity out)"
    and "map ndvi_promedio_7d out = rolling_mean 7 (map ndvi out)"
    and "map ndvi_promedio_14d out = rolling_mean 14 (map ndvi out)"
    and "map humedad_promedio_7d out = rolling_mean 7 (map soil_humidity out)"
    and "map humedad_promedio_14d out = rolling_mean 14 (map soil_humidity out)"
    and "map tmax_promedio_7d out = rolling_mean 7 (map tmax out)"
    and "map tmax_promedio_14d out = rolling_mean 14 (map tmax out)"
    and "map lst_max_7d out = rolling_max 7 (map lst out)"
    and "map lst_max_14d out = rolling_max 14 (map lst out)"
proof -
  from assms obtain df where o: "out = map (fila_en df (calcular_umbrales df)) [0..<length df]"
    and c: "map ndvi out = map ndvi df" "map soil_humidity out = map soil_humidity df"
      "map lst out = map lst df" "map tmax out = map tmax df"
    by (rule crear_features_tabla)
  note l = length_diff length_rolling_mean length_rolling_max length_map
  show "map ndvi_tendencia_7d out = diff 7 (map ndvi out)"
    unfolding c unfolding o by (rule col_of_tabla) (simp_all only: fila_en_windows l)
  show "map ndvi_tendencia_14d out = diff 14 (map ndvi out)"
    unfolding c unfolding o by (rule col_of_tabla) (simp_all only: fila_en_windows l)
  show "map humedad_tendencia_7d out = diff 7 (map soil_humidity out)"
    unfolding c unfolding o by (rule col_of_tabla) (simp_all only: fila_en_windows l)
  show "map humedad_tendencia_14d out = diff 14 (map soil_humidity out)"
    unfolding c unfolding o by (rule col_of_tabla) (simp_all only: fila_en_windows l)
  show "map ndvi_promedio_7d out = rolling_mean 7 (map ndvi out)"
    unfolding c unfolding o by (rule col_of_tabla) (simp_all only: fila_en_windows l)
  show "map ndvi_promedio_14d out = rolling_mean 14 (map ndvi out)"
    unfolding c unfolding o by (rule col_of_tabla) (simp_all only: fila_en_windows l)
  show "map humedad_promedio_7d out = rolling_mean 7 (map soil_humidity out)"
    unfolding c unfolding o by (rule col_of_tabla) (simp_all only: fila_en_windows l)
  show "map humedad_promedio_14d out = rolling_mean 14 (map soil_humidity out)"
    unfolding c unfolding o by (rule col_of_tabla) (simp_all only: fila_en_windows l)
  show "map tmax_promedio_7d out = rolling_mean 7 (map tmax out)"
    unfolding c unfolding o by (rule col_of_tabla) (simp_all only: fila_en_windows l)
  show "map tmax_promedio_14d out = rolling_mean 14 (map tmax out)"
    unfolding c unfolding o by (rule col_of_tabla) (simp_all only: fila_en_windows l)
  show "map lst_max_7d out = rolling_max 7 (map lst out)"
    unfolding c unfolding o by (rule col_of_tabla) (simp_all only: fila_en_windows l)
  show "map lst_max_14d out = rolling_max 14 (map lst out)"
    unfolding c unfolding o by (rule col_of_tabla) (simp_all only: fila_en_windows l)
qed

lemma fila_en_labels:
  "deficit_combinado (fila_en df u i) = deficit (soil_humidity (df ! i)) (lst (df ! i)) (ndvi (df ! i))"
  "estres_nivel (fila_en df u i) =
     (if estres_severo u (soil_humidity (df ! i)) (ndvi (df ! i)) (lst (df ! i))
           (diff 14 (map ndvi df) ! i) then 2
      else if estres_moderado u (soil_humidity (df ! i)) (ndvi (df ! i))
           (deficit (soil_humidity (df ! i)) (lst (df ! i)) (ndvi (df ! i)))
           (diff 7 (map ndvi df) ! i) then 1
      else 0)"
  "estres_etiqueta (fila_en df u i) = etiquetas (estres_nivel (fila_en df u i))"
  "evi_ndvi_ratio (fila_en df u i) = np_div (evi (df ! i)) (ndvi (df ! i) + 0.001)"
  by (simp_all add: fila_en_def Let_def)

lemma quantile_Some: "xs \<noteq> [] \<Longrightarrow> \<exists>v. quantile xs q = Some v"
  by (simp add: quantile_def Let_def)

lemma lt_nan_Some [simp]: "lt_nan (Some x) (Some y) = (x < y)"
  by (simp add: lt_nan_def)

lemma gt_nan_Some [simp]: "gt_nan (Some x) (Some y) = (x > y)"
  by (simp add: gt_nan_def)

text \<open>The row-level reading of the label for a row of the result.\<close>

lemma crear_features_nivel:
  assumes "crear_features p df0 = Inr out" "i < length out"
  shows "\<exists>P25_h P50_h P25_n P50_n P75_l.
      quantile (map soil_humidity out) 0.25 = Some P25_h \<and>
      quantile (map soil_humidity out) 0.50 = Some P50_h \<and>
      quantile (map ndvi out) 0.25 = Some P25_n \<and>
      quantile (map ndvi out) 0.50 = Some P50_n \<and>
      quantile (map lst out) 0.75 = Some P75_l \<and>
      estres_nivel (out ! i) =
        (if soil_humidity (out ! i) < P25_h \<or>
            (ndvi (out ! i) < P25_n \<and> soil_humidity (out ! i) < P50_h) \<or>
            (lst (out ! i) > P75_l \<and> lt_nan (ndvi_tendencia_14d (out ! i)) (Some (- 0.05)))
         then 2
         else if (soil_humidity (out ! i) < P50_h \<and> ndvi (out ! i) < P50_n) \<or>
                 (deficit_combinado (out ! i) > 0.4 \<and> soil_humidity (out ! i) < P50_h) \<or>
                 (lt_nan (ndvi_tendencia_7d (out ! i)) (Some (- 0.03)) \<and>
                  soil_humidity (out ! i) < P50_h)
         then 1 else 0)"
proof -
  from assms obtain df where r: "out ! i = fila_en df (calcular_umbrales df) i"
    and i: "i < length df"
    and c: "map ndvi out = map ndvi df" "map soil_humidity out = map soil_humidity df"
      "map lst out = map lst df" "map tmax out = map tmax df"
    by (rule crear_features_nth)
  from i have ne: "map soil_humidity df \<noteq> []" "map ndvi df \<noteq> []" "map lst df \<noteq> []" by auto
  obtain a where a: "quantile (map soil_humidity df) 0.25 = Some a"
    using quantile_Some[OF ne(1)] by blast
  obtain b where b: "quantile (map soil_humidity df) 0.50 = Some b"
    using quantile_Some[OF ne(1)] by blast
  obtain c1 where c1: "quantile (map ndvi df) 0.25 = Some c1"
    using quantile_Some[OF ne(2)] by blast
  obtain d where d: "quantile (map ndvi df) 0.50 = Some d"
    using quantile_Some[OF ne(2)] by blast
  obtain e where e: "quantile (map lst df) 0.75 = Some e"
    using quantile_Some[OF ne(3)] by blast
  have u: "calcular_umbrales df =
      \<lparr>p25_humedad = Some a, p50_humedad = Some b, p25_ndvi = Some c1, p50_ndvi = Some d,
       p75_lst = Some e\<rparr>"
    by (simp only: calcular_umbrales_def a b c1 d e)
  have "estres_nivel (out ! i) =
        (if soil_humidity (out ! i) < a \<or>
            (ndvi (out ! i) < c1 \<and> soil_humidity (out ! i) < b) \<or>
            (lst (out ! i) > e \<and> lt_nan (ndvi_tendencia_14d (out ! i)) (Some (- 0.05)))
         then 2
         else if (soil_humidity (out ! i) < b \<and> ndvi (out ! i) < d) \<or>
                 (deficit_combinado (out ! i) > 0.4 \<and> soil_humidity (out ! i) < b) \<or>
                 (lt_nan (ndvi_tendencia_7d (out ! i)) (Some (- 0.03)) \<and>
                  soil_humidity (out ! i) < b)
         then 1 else 0)"
    unfolding r u
    by (simp only: fila_en_labels fila_en_cols fila_en_windows)
       (simp add: estres_severo_def estres_moderado_def)
  then show ?thesis unfolding c a b c1 d e by blast
qed

section \<open>Facts about \<open>calcular_features\<close>\<close>

lemma str_7: "str 7 = ''7''" by code_simp
lemma str_14: "str 14 = ''14''" by code_simp

lemma leer_fecha_spec: "leer_fecha ''2024-06-15'' = Some \<lparr>year = 2024, month = 6, day = 15\<rparr>"
  by code_simp

lemma calcular_features_Inr:
  assumes "to_datetime (date datos) = Some ts" "ndvi datos \<noteq> - 0.001"
  shows "calcular_features to_datetime datos =
     Inr (fold (features_ventana datos) [7, 14]
           [''ndvi'' \<mapsto> ndvi datos,
            ''evi'' \<mapsto> evi datos,
            ''lst'' \<mapsto> lst datos,
            ''tmax'' \<mapsto> tmax datos,
            ''tmin'' \<mapsto> tmin datos,
            ''soil_humidity'' \<mapsto> soil_humidity datos,
            ''evi_ndvi_ratio'' \<mapsto> evi datos / (ndvi datos + 0.001),
            ''temp_promedio'' \<mapsto> (tmax datos + tmin datos) / 2,
            ''amplitud_termica'' \<mapsto> tmax datos - tmin datos,
            ''deficit_combinado'' \<mapsto>
               (1 - soil_humidity datos / 35) * 0.5 +
               ((lst datos - 25) / 20) * 0.3 +
               (1 - ndvi datos) * 0.2,
            ''mes'' \<mapsto> real (month ts),
            dia_anio_key \<mapsto> real (dayofyear ts),
            ''dias_desde_inicio'' \<mapsto> 0])"
proof -
  from assms(2) have "ndvi datos + 0.001 \<noteq> 0" by simp
  then show ?thesis
    unfolding calcular_features_def Let_def using assms(1) by (simp only: if_False option.case)
qed

lemma features_dict_lookup:
  fixes d :: "string \<rightharpoonup> real" and datos :: DatosEntrada
  defines "f \<equiv> fold (features_ventana datos) [7, 14] d"
  shows "f ''ndvi_promedio_7d'' = Some (ndvi datos)"
    and "f ''ndvi_promedio_14d'' = Some (ndvi datos)"
    and "f ''ndvi_tendencia_7d'' = Some 0"
    and "f ''ndvi_tendencia_14d'' = Some 0"
    and "f ''humedad_promedio_7d'' = Some (soil_humidity datos)"
    and "f ''humedad_promedio_14d'' = Some (soil_humidity datos)"
    and "f ''humedad_tendencia_7d'' = Some 0"
    and "f ''humedad_tendencia_14d'' = Some 0"
    and "f ''lst_max_7d'' = Some (lst datos)"
    and "f ''lst_max_14d'' = Some (lst datos)"
    and "f ''tmax_promedio_7d'' = Some (tmax datos)"
    and "f ''tmax_promedio_14d'' = Some (tmax datos)"
    and "f ''dias_desde_inicio'' = d ''dias_desde_inicio''"
    and "f ''mes'' = d ''mes''"
    and "f dia_anio_key = d dia_anio_key"
    and "f ''deficit_combinado'' = d ''deficit_combinado''"
    and "f ''evi_ndvi_ratio'' = d ''evi_ndvi_ratio''"
  unfolding f_def by (simp_all add: features_ventana_def str_7 str_14 dia_anio_key_def)

section \<open>The concrete inputs, evaluated\<close>

lemma tabla_ej_ok: "crear_features leer_fecha tabla_ej = Inr salida_ej"
proof -
  have "\<not> isl (crear_features leer_fecha tabla_ej)" by code_simp
  then show ?thesis unfolding salida_ej_def by (cases "crear_features leer_fecha tabla_ej") simp_all
qed

lemma salida_ej_cols:
  "map ndvi salida_ej = [0.3, 0.5, 0.7, 0.8]"
  "map soil_humidity salida_ej = [10, 18, 22, 30]"
  "map lst salida_ej = [30, 30, 30, 30]"
  "map tmax salida_ej = [29, 30, 27, 28]"
  "map estres_nivel salida_ej = [2, 1, 0, 0]"
  "map deficit_combinado salida_ej = [801 / 1400, 117 / 280, 449 / 1400, 261 / 1400]"
  "map ndvi_tendencia_7d salida_ej = [None, None, None, None]"
  "map ndvi_tendencia_14d salida_ej = [None, None, None, None]"
  "map estres_etiqueta salida_ej =
     [Some ''estres_severo'', Some ''estres_moderado'', Some ''sin_estres'', Some ''sin_estres'']"
  by code_simp+

lemma salida_ej_length: "length salida_ej = 4"
  using arg_cong[OF salida_ej_cols(1), of length] by simp

section \<open>The rolling features\<close>

text \<open>
  C8. The rolling mean of window w at row i is the sum of the rows of the trailing
  window that exist divided by their number, min w (i + 1).
\<close>

theorem C8_rolling_mean:
  assumes "0 < w" and "i < length xs" and "crear_features p df0 = Inr out"
  shows "rolling_mean w xs ! i =
           (\<Sum>j = Suc i - min w (Suc i)..<Suc i. xs ! j) / real (min w (Suc i)) \<and>
         rolling_mean w xs ! 0 = xs ! 0 \<and>
         length (rolling_mean w xs) = length xs \<and>
         map ndvi_promedio_7d out = rolling_mean 7 (map ndvi out) \<and>
         map ndvi_promedio_14d out = rolling_mean 14 (map ndvi out) \<and>
         map humedad_promedio_7d out = rolling_mean 7 (map soil_humidity out) \<and>
         map humedad_promedio_14d out = rolling_mean 14 (map soil_humidity out) \<and>
         map tmax_promedio_7d out = rolling_mean 7 (map tmax out) \<and>
         map tmax_promedio_14d out = rolling_mean 14 (map tmax out)"
proof -
  from assms(2) have "xs \<noteq> []" by auto
  then have "rolling_mean w xs ! 0 = xs ! 0" using assms(1) by (rule rolling_mean_first)
  moreover note rolling_mean_window[OF assms(2), of w] length_rolling_mean[of w xs]
    crear_features_columnas(5-10)[OF assms(3)]
  ultimately show ?thesis by blast
qed

theorem C8_rolling_mean_witness:
  "(0::nat) < 2 \<and> 2 < length [1, 2, 6 :: real] \<and>
   crear_features leer_fecha tabla_ej = Inr salida_ej \<and>
   rolling_mean 2 [1, 2, 6] ! 2 = 4 \<and> rolling_mean 2 [1, 2, 6] ! 0 = 1 \<and>
   map ndvi_promedio_7d salida_ej = rolling_mean 7 [0.3, 0.5, 0.7, 0.8] \<and>
   rolling_mean 7 [0.3, 0.5, 0.7, 0.8] = [0.3, 0.4, 0.5, 0.575]"
proof -
  have e: "rolling_mean 7 [0.3, 0.5, 0.7, 0.8] = [0.3, 0.4, 0.5, 0.575]"
    "rolling_mean 2 [1, 2, 6] ! 2 = 4" by code_simp+
  have s: "(\<Sum>j = Suc 2 - min 2 (Suc 2)..<Suc 2. [1, 2, 6 :: real] ! j) / real (min 2 (Suc 2)) = 4"
    by (simp add: numeral_2_eq_2 numeral_3_eq_3 sum.atLeast_Suc_lessThan)
  show ?thesis
    using C8_rolling_mean[of 2 2 "[1, 2, 6]" leer_fecha tabla_ej salida_ej] tabla_ej_ok e
    by (simp add: salida_ej_cols)
qed

text \<open>
  C7. The trend of window w at row i is null exactly for the first w rows and is
  otherwise the value at i minus the value w rows earlier.
\<close>

theorem C7_trend:
  assumes "i < length xs" and "crear_features p df0 = Inr out"
  shows "(diff w xs ! i = None \<longleftrightarrow> i < w) \<and>
         (w \<le> i \<longrightarrow> diff w xs ! i = Some (xs ! i - xs ! (i - w))) \<and>
         (length xs < w \<longrightarrow> (\<forall>t \<in> set (diff w xs). t = None)) \<and>
         length (diff w xs) = length xs \<and>
         map ndvi_tendencia_7d out = diff 7 (map ndvi out) \<and>
         map ndvi_tendencia_14d out = diff 14 (map ndvi out) \<and>
         map humedad_tendencia_7d out = diff 7 (map soil_humidity out) \<and>
         map humedad_tendencia_14d out = diff 14 (map soil_humidity out)"
proof -
  have "diff w xs ! i = (if i < w then None else Some (xs ! i - xs ! (i - w)))"
    using assms(1) by (rule diff_nth)
  then have "(diff w xs ! i = None \<longleftrightarrow> i < w) \<and>
         (w \<le> i \<longrightarrow> diff w xs ! i = Some (xs ! i - xs ! (i - w)))" by simp
  moreover have "length xs < w \<longrightarrow> (\<forall>t \<in> set (diff w xs). t = None)"
    using diff_short by blast
  moreover note length_diff[of w xs] crear_features_columnas(1-4)[OF assms(2)]
  ultimately show ?thesis by blast
qed

theorem C7_trend_witness:
  "2 < length [1, 2, 6 :: real] \<and> crear_features leer_fecha tabla_ej = Inr salida_ej \<and>
   (2::nat) \<le> 2 \<and> diff 2 [1, 2, 6] ! 2 = Some 5 \<and>
   length [1, 2, 6 :: real] < 7 \<and> diff 7 [1, 2, 6] = [None, None, None] \<and>
   diff 2 [1, 2, 6] = [None, None, Some 5] \<and>
   map ndvi_tendencia_7d salida_ej = diff 7 [0.3, 0.5, 0.7, 0.8] \<and>
   diff 7 [0.3, 0.5, 0.7, 0.8] = [None, None, None, None]"
proof -
  have e: "diff 7 [1, 2, 6] = [None, None, None]" "diff 2 [1, 2, 6] = [None, None, Some 5]"
    "diff 7 [0.3, 0.5, 0.7, 0.8] = [None, None, None, None]"
    by code_simp+
  show ?thesis
    using C7_trend[of 2 "[1, 2, 6]" leer_fecha tabla_ej salida_ej 2]
      C7_trend[of 2 "[0.3, 0.5, 0.7, 0.8]" leer_fecha tabla_ej salida_ej 7] tabla_ej_ok
    by (simp add: salida_ej_cols e)
qed

section \<open>The percentiles are monotone\<close>

lemma interp_bounds:
  fixes v :: "real list"
  assumes "sorted v" "0 \<le> pos" "nat \<lceil>pos\<rceil> < length v"
  shows "v ! nat \<lfloor>pos\<rfloor> \<le> v ! nat \<lfloor>pos\<rfloor> + (v ! nat \<lceil>pos\<rceil> - v ! nat \<lfloor>pos\<rfloor>) * (pos - real (nat \<lfloor>pos\<rfloor>))"
    and "v ! nat \<lfloor>pos\<rfloor> + (v ! nat \<lceil>pos\<rceil> - v ! nat \<lfloor>pos\<rfloor>) * (pos - real (nat \<lfloor>pos\<rfloor>)) \<le> v ! nat \<lceil>pos\<rceil>"
proof -
  let ?lo = "nat \<lfloor>pos\<rfloor>" and ?hi = "nat \<lceil>pos\<rceil>"
  have "\<lfloor>pos\<rfloor> \<le> \<lceil>pos\<rceil>" by (rule floor_le_ceiling)
  then have "?lo \<le> ?hi" by (rule nat_mono)
  then have d: "0 \<le> v ! ?hi - v ! ?lo"
    using assms(1,3) by (simp add: sorted_nth_mono)
  have f0: "0 \<le> pos - real ?lo" using assms(2) by simp
  have f1: "pos - real ?lo \<le> 1" using assms(2) by simp linarith
  show "v ! ?lo \<le> v ! ?lo + (v ! ?hi - v ! ?lo) * (pos - real ?lo)"
    using d f0 by simp
  have "(v ! ?hi - v ! ?lo) * (pos - real ?lo) \<le> (v ! ?hi - v ! ?lo) * 1"
    using d f1 by (rule mult_left_mono[rotated])
  then show "v ! ?lo + (v ! ?hi - v ! ?lo) * (pos - real ?lo) \<le> v ! ?hi" by simp
qed

lemma interp_mono:
  fixes v :: "real list"
  assumes "sorted v" "0 \<le> p1" "p1 \<le> p2" "nat \<lceil>p2\<rceil> < length v"
  shows "v ! nat \<lfloor>p1\<rfloor> + (v ! nat \<lceil>p1\<rceil> - v ! nat \<lfloor>p1\<rfloor>) * (p1 - real (nat \<lfloor>p1\<rfloor>))
       \<le> v ! nat \<lfloor>p2\<rfloor> + (v ! nat \<lceil>p2\<rceil> - v ! nat \<lfloor>p2\<rfloor>) * (p2 - real (nat \<lfloor>p2\<rfloor>))"
    (is "?I1 \<le> ?I2")
proof -
  have c12: "\<lceil>p1\<rceil> \<le> \<lceil>p2\<rceil>" using assms(3) by (rule ceiling_mono)
  then have h1: "nat \<lceil>p1\<rceil> < length v" using assms(4) by linarith
  have p2: "0 \<le> p2" using assms(2,3) by simp
  show ?thesis
  proof (cases "\<lceil>p1\<rceil> \<le> \<lfloor>p2\<rfloor>")
    case True
    have "?I1 \<le> v ! nat \<lceil>p1\<rceil>" using assms(1,2) h1 by (rule interp_bounds)
    also have "\<dots> \<le> v ! nat \<lfloor>p2\<rfloor>"
    proof -
      have "nat \<lceil>p1\<rceil> \<le> nat \<lfloor>p2\<rfloor>" using True by (rule nat_mono)
      moreover have "nat \<lfloor>p2\<rfloor> < length v"
        using assms(4) floor_le_ceiling[of p2] by linarith
      ultimately show ?thesis using assms(1) by (simp add: sorted_nth_mono)
    qed
    also have "\<dots> \<le> ?I2" using assms(1) p2 assms(4) by (rule interp_bounds)
    finally show ?thesis .
  next
    case False
    then have lt: "\<lfloor>p2\<rfloor> < \<lceil>p1\<rceil>" by simp
    have f12: "\<lfloor>p1\<rfloor> \<le> \<lfloor>p2\<rfloor>" using assms(3) by (rule floor_mono)
    have "\<lceil>p1\<rceil> \<le> \<lfloor>p1\<rfloor> + 1" using ceiling_diff_floor_le_1[of p1] by simp
    with lt f12 have fe: "\<lfloor>p2\<rfloor> = \<lfloor>p1\<rfloor>" and c1: "\<lceil>p1\<rceil> = \<lfloor>p1\<rfloor> + 1" by linarith+
    have "\<lceil>p2\<rceil> \<le> \<lfloor>p2\<rfloor> + 1" using ceiling_diff_floor_le_1[of p2] by simp
    with c12 c1 fe have c2: "\<lceil>p2\<rceil> = \<lceil>p1\<rceil>" by linarith
    have "\<lfloor>p1\<rfloor> \<le> \<lceil>p1\<rceil>" by (rule floor_le_ceiling)
    then have "nat \<lfloor>p1\<rfloor> \<le> nat \<lceil>p1\<rceil>" by (rule nat_mono)
    then have d: "0 \<le> v ! nat \<lceil>p1\<rceil> - v ! nat \<lfloor>p1\<rfloor>"
      using assms(1) h1 by (simp add: sorted_nth_mono)
    have "(v ! nat \<lceil>p1\<rceil> - v ! nat \<lfloor>p1\<rfloor>) * (p1 - real (nat \<lfloor>p1\<rfloor>))
        \<le> (v ! nat \<lceil>p1\<rceil> - v ! nat \<lfloor>p1\<rfloor>) * (p2 - real (nat \<lfloor>p1\<rfloor>))"
      using assms(3) d by (intro mult_left_mono) simp_all
    then show ?thesis by (simp add: fe c2)
  qed
qed

lemma quantile_mono:
  assumes "0 \<le> q1" "q1 \<le> q2" "q2 \<le> 1"
    and "quantile xs q1 = Some a" "quantile xs q2 = Some b"
  shows "a \<le> b"
proof -
  from assms(4) have ne: "xs \<noteq> []" by (auto simp: quantile_def)
  let ?v = "sort xs" and ?n = "real (length xs - 1)"
  have s: "sorted ?v" by simp
  have n0: "0 \<le> ?n" by simp
  have p1: "0 \<le> q1 * ?n" using assms(1) by simp
  have p12: "q1 * ?n \<le> q2 * ?n" using assms(2) by (simp add: mult_right_mono)
  have "q2 * ?n \<le> ?n" using mult_right_mono[OF assms(3) n0] by simp
  then have "\<lceil>q2 * ?n\<rceil> \<le> int (length xs - 1)" by (simp add: ceiling_le_iff)
  then have "nat \<lceil>q2 * ?n\<rceil> \<le> length xs - 1" by linarith
  moreover from ne have "length xs - 1 < length xs" by (cases xs) simp_all
  ultimately have "nat \<lceil>q2 * ?n\<rceil> < length xs" by (rule le_less_trans)
  then have hi: "nat \<lceil>q2 * ?n\<rceil> < length ?v" by (simp only: length_sort)
  have "a = ?v ! nat \<lfloor>q1 * ?n\<rfloor> + (?v ! nat \<lceil>q1 * ?n\<rceil> - ?v ! nat \<lfloor>q1 * ?n\<rfloor>) * (q1 * ?n - real (nat \<lfloor>q1 * ?n\<rfloor>))"
    using assms(4) ne by (simp add: quantile_def Let_def)
  moreover have "b = ?v ! nat \<lfloor>q2 * ?n\<rfloor> + (?v ! nat \<lceil>q2 * ?n\<rceil> - ?v ! nat \<lfloor>q2 * ?n\<rfloor>) * (q2 * ?n - real (nat \<lfloor>q2 * ?n\<rfloor>))"
    using assms(5) ne by (simp add: quantile_def Let_def)
  ultimately show ?thesis using interp_mono[OF s p1 p12 hi] by simp
qed

section \<open>More facts about the table of \<open>crear_features\<close>\<close>

lemma crear_features_length:
  assumes "crear_features p df0 = Inr out"
  shows "length out = length df0"
proof -
  from assms obtain df where "out = map (fila_en df (calcular_umbrales df)) [0..<length df]"
    and "length df = length df0"
    by (rule crear_features_tabla)
  then show ?thesis by simp
qed

lemma crear_features_etiqueta:
  assumes "crear_features p df0 = Inr out" and "i < length out"
  shows "estres_nivel (out ! i) \<in> {0, 1, 2}"
    and "estres_etiqueta (out ! i) = etiquetas (estres_nivel (out ! i))"
proof -
  from assms obtain df where r: "out ! i = fila_en df (calcular_umbrales df) i"
    by (rule crear_features_nth)
  show "estres_nivel (out ! i) \<in> {0, 1, 2}"
    unfolding r by (simp only: fila_en_labels) simp
  show "estres_etiqueta (out ! i) = etiquetas (estres_nivel (out ! i))"
    unfolding r by (rule fila_en_labels)
qed

lemma crear_features_deficit:
  assumes "crear_features p df0 = Inr out" and "i < length out"
  shows "deficit_combinado (out ! i) =
           clip 0 1 (0.5 * (1 - clip 0 1 (soil_humidity (out ! i) / 35)) +
                     0.3 * clip 0 1 ((lst (out ! i) - 25) / 20) +
                     0.2 * (1 - ndvi (out ! i)))"
    and "0 \<le> deficit_combinado (out ! i)" and "deficit_combinado (out ! i) \<le> 1"
proof -
  from assms obtain df where r: "out ! i = fila_en df (calcular_umbrales df) i"
    by (rule crear_features_nth)
  show "deficit_combinado (out ! i) =
           clip 0 1 (0.5 * (1 - clip 0 1 (soil_humidity (out ! i) / 35)) +
                     0.3 * clip 0 1 ((lst (out ! i) - 25) / 20) +
                     0.2 * (1 - ndvi (out ! i)))"
    unfolding r by (simp only: fila_en_labels fila_en_cols)
      (simp add: deficit_def humedad_norm_def temp_norm_def mult.commute)
  show "0 \<le> deficit_combinado (out ! i)" "deficit_combinado (out ! i) \<le> 1"
    unfolding r by (simp_all only: fila_en_labels) (simp_all add: deficit_def clip_def)
qed

lemma deficit_humedad_saturada: "h \<le> 0 \<Longrightarrow> deficit h l n = deficit 0 l n"
  by (simp add: deficit_def humedad_norm_def clip_def max_def)

lemma crear_features_ratio:
  assumes "crear_features p df0 = Inr out" and "i < length out"
  shows "evi_ndvi_ratio (out ! i) = np_div (evi (out ! i)) (ndvi (out ! i) + 0.001)"
proof -
  from assms obtain df where r: "out ! i = fila_en df (calcular_umbrales df) i"
    by (rule crear_features_nth)
  show ?thesis unfolding r by (simp add: fila_en_def Let_def)
qed

lemma procesar_datos_nulos:
  assumes "procesar_datos p csv = Inr out" and "i < length out"
  shows "ndvi_tendencia_7d (out ! i) = None \<longleftrightarrow> i < 7"
    and "ndvi_tendencia_14d (out ! i) = None \<longleftrightarrow> i < 14"
    and "humedad_tendencia_7d (out ! i) = None \<longleftrightarrow> i < 7"
    and "humedad_tendencia_14d (out ! i) = None \<longleftrightarrow> i < 14"
proof -
  from assms(1) have c: "crear_features p (dropna csv) = Inr out"
    by (simp add: procesar_datos_def)
  have n: "f (out ! i) = None \<longleftrightarrow> i < w"
    if "map f out = diff w xs" "length xs = length out" for f w xs
  proof -
    have "f (out ! i) = map f out ! i" using assms(2) by simp
    also have "\<dots> = diff w xs ! i" by (simp only: that(1))
    finally show ?thesis using assms(2) that(2) by (simp add: diff_nth)
  qed
  show "ndvi_tendencia_7d (out ! i) = None \<longleftrightarrow> i < 7"
    by (rule n[OF crear_features_columnas(1)[OF c]]) simp
  show "ndvi_tendencia_14d (out ! i) = None \<longleftrightarrow> i < 14"
    by (rule n[OF crear_features_columnas(2)[OF c]]) simp
  show "humedad_tendencia_7d (out ! i) = None \<longleftrightarrow> i < 7"
    by (rule n[OF crear_features_columnas(3)[OF c]]) simp
  show "humedad_tendencia_14d (out ! i) = None \<longleftrightarrow> i < 14"
    by (rule n[OF crear_features_columnas(4)[OF c]]) simp
qed

section \<open>The labels\<close>

lemma salida_ej_umbrales:
  "quantile (map soil_humidity salida_ej) 0.25 = Some 16"
  "quantile (map soil_humidity salida_ej) 0.50 = Some 20"
  "quantile (map ndvi salida_ej) 0.25 = Some 0.45"
  "quantile (map ndvi salida_ej) 0.50 = Some 0.6"
  "quantile (map lst salida_ej) 0.75 = Some 30"
  by code_simp+

lemma salida_ej_nth:
  "soil_humidity (salida_ej ! 1) = 18" "ndvi (salida_ej ! 1) = 0.5"
  "estres_nivel (salida_ej ! 1) = 1"
  "soil_humidity (salida_ej ! 2) = 22" "estres_nivel (salida_ej ! 2) = 0"
  "estres_nivel (salida_ej ! 0) = 2"
  "estres_etiqueta (salida_ej ! 0) = Some ''estres_severo''"
  "estres_etiqueta (salida_ej ! 1) = Some ''estres_moderado''"
  "estres_etiqueta (salida_ej ! 2) = Some ''sin_estres''"
  by code_simp+

text \<open>
  C2. Every row of the table gets its level from the table's own percentiles: 2 under a
  severe rule, otherwise 1 under a moderate rule, otherwise 0.
\<close>

theorem C2_label_rules:
  assumes "crear_features p df0 = Inr out" and "i < length out"
  shows "length out = length df0 \<and>
    (\<exists>P25_h P50_h P25_n P50_n P75_l.
      quantile (map soil_humidity out) 0.25 = Some P25_h \<and>
      quantile (map soil_humidity out) 0.50 = Some P50_h \<and>
      quantile (map ndvi out) 0.25 = Some P25_n \<and>
      quantile (map ndvi out) 0.50 = Some P50_n \<and>
      quantile (map lst out) 0.75 = Some P75_l \<and>
      estres_nivel (out ! i) =
        (if soil_humidity (out ! i) < P25_h \<or>
            (ndvi (out ! i) < P25_n \<and> soil_humidity (out ! i) < P50_h) \<or>
            (lst (out ! i) > P75_l \<and> lt_nan (ndvi_tendencia_14d (out ! i)) (Some (- 0.05)))
         then 2
         else if (soil_humidity (out ! i) < P50_h \<and> ndvi (out ! i) < P50_n) \<or>
                 (deficit_combinado (out ! i) > 0.4 \<and> soil_humidity (out ! i) < P50_h) \<or>
                 (lt_nan (ndvi_tendencia_7d (out ! i)) (Some (- 0.03)) \<and>
                  soil_humidity (out ! i) < P50_h)
         then 1 else 0))"
  using crear_features_length[OF assms(1)] crear_features_nivel[OF assms] by blast

theorem C2_label_rules_witness:
  "crear_features leer_fecha tabla_ej = Inr salida_ej \<and> 1 < length salida_ej \<and>
   quantile (map soil_humidity salida_ej) 0.25 = Some 16 \<and>
   quantile (map soil_humidity salida_ej) 0.50 = Some 20 \<and>
   quantile (map ndvi salida_ej) 0.25 = Some 0.45 \<and>
   quantile (map ndvi salida_ej) 0.50 = Some 0.6 \<and>
   quantile (map lst salida_ej) 0.75 = Some 30 \<and>
   soil_humidity (salida_ej ! 1) = 18 \<and> ndvi (salida_ej ! 1) = 0.5 \<and>
   estres_nivel (salida_ej ! 1) = 1 \<and>
   map estres_nivel salida_ej = [2, 1, 0, 0]"
proof -
  have l: "1 < length salida_ej" by (simp add: salida_ej_length)
  show ?thesis
    using C2_label_rules[OF tabla_ej_ok l] tabla_ej_ok l salida_ej_umbrales salida_ej_nth(1-3)
      salida_ej_cols(5)
    by blast
qed

text \<open>
  C10. A row with level 1 has its soil humidity below the table's median humidity; a row
  at or above the median has level 0, or level 2 by the rule on LST and the 14-day trend.
\<close>

theorem C10_moderate_below_median:
  assumes "crear_features p df0 = Inr out" and "i < length out"
  shows "\<exists>P50_h P75_l.
      quantile (map soil_humidity out) 0.50 = Some P50_h \<and>
      quantile (map lst out) 0.75 = Some P75_l \<and>
      (estres_nivel (out ! i) = 1 \<longrightarrow> soil_humidity (out ! i) < P50_h) \<and>
      (P50_h \<le> soil_humidity (out ! i) \<longrightarrow>
         estres_nivel (out ! i) = 0 \<or>
         (estres_nivel (out ! i) = 2 \<and> lst (out ! i) > P75_l \<and>
          lt_nan (ndvi_tendencia_14d (out ! i)) (Some (- 0.05))))"
proof -
  from crear_features_nivel[OF assms] obtain a b c d e where
    q: "quantile (map soil_humidity out) 0.50 = Some b" "quantile (map lst out) 0.75 = Some e"
    and a: "quantile (map soil_humidity out) 0.25 = Some a"
    and n: "estres_nivel (out ! i) =
        (if soil_humidity (out ! i) < a \<or>
            (ndvi (out ! i) < c \<and> soil_humidity (out ! i) < b) \<or>
            (lst (out ! i) > e \<and> lt_nan (ndvi_tendencia_14d (out ! i)) (Some (- 0.05)))
         then 2
         else if (soil_humidity (out ! i) < b \<and> ndvi (out ! i) < d) \<or>
                 (deficit_combinado (out ! i) > 0.4 \<and> soil_humidity (out ! i) < b) \<or>
                 (lt_nan (ndvi_tendencia_7d (out ! i)) (Some (- 0.03)) \<and>
                  soil_humidity (out ! i) < b)
         then 1 else 0)"
    by blast
  have ab: "a \<le> b" by (rule quantile_mono[OF _ _ _ a q(1)]) simp_all
  have 1: "estres_nivel (out ! i) = 1 \<longrightarrow> soil_humidity (out ! i) < b"
    unfolding n by (simp split: if_splits)
  have 2: "b \<le> soil_humidity (out ! i) \<longrightarrow>
         estres_nivel (out ! i) = 0 \<or>
         (estres_nivel (out ! i) = 2 \<and> lst (out ! i) > e \<and>
          lt_nan (ndvi_tendencia_14d (out ! i)) (Some (- 0.05)))"
    unfolding n using ab by auto
  from q 1 2 show ?thesis by blast
qed

theorem C10_moderate_below_median_witness:
  "crear_features leer_fecha tabla_ej = Inr salida_ej \<and> 1 < length salida_ej \<and>
   2 < length salida_ej \<and>
   quantile (map soil_humidity salida_ej) 0.50 = Some 20 \<and>
   estres_nivel (salida_ej ! 1) = 1 \<and> soil_humidity (salida_ej ! 1) = 18 \<and>
   (18::real) < 20 \<and>
   soil_humidity (salida_ej ! 2) = 22 \<and> (20::real) \<le> 22 \<and>
   estres_nivel (salida_ej ! 2) = 0"
proof -
  have l: "1 < length salida_ej" "2 < length salida_ej" by (simp_all add: salida_ej_length)
  have c: "(18::real) < 20" "(20::real) \<le> 22" by simp_all
  show ?thesis
    using C10_moderate_below_median[OF tabla_ej_ok l(1)]
      C10_moderate_below_median[OF tabla_ej_ok l(2)]
      tabla_ej_ok l c salida_ej_umbrales(2) salida_ej_nth(1,3,4,5)
    by blast
qed

text \<open>
  C5, as the code has it. The level of every row is 0, 1 or 2 and its tag is the Spanish
  tag of that level: sin_estres, estres_moderado, estres_severo.
\<close>

theorem C5_spanish_tags:
  assumes "crear_features p df0 = Inr out" and "i < length out"
  shows "estres_nivel (out ! i) \<in> {0, 1, 2} \<and>
         estres_etiqueta (out ! i) =
           Some (if estres_nivel (out ! i) = 0 then ''sin_estres''
                 else if estres_nivel (out ! i) = 1 then ''estres_moderado''
                 else ''estres_severo'')"
  using crear_features_etiqueta[OF assms] by (auto simp: etiquetas_def)

theorem C5_spanish_tags_witness:
  "crear_features leer_fecha tabla_ej = Inr salida_ej \<and> 1 < length salida_ej \<and>
   estres_nivel (salida_ej ! 1) = 1 \<and>
   estres_etiqueta (salida_ej ! 1) = Some ''estres_moderado''"
proof -
  have l: "1 < length salida_ej" by (simp add: salida_ej_length)
  show ?thesis
    using C5_spanish_tags[OF tabla_ej_ok l] tabla_ej_ok l salida_ej_nth(3,8) by blast
qed

theorem C5_english_tags_counterexample:
  "map_sum id (map estres_nivel) (crear_features leer_fecha tabla_ej) = Inr [2, 1, 0, 0] \<and>
   map_sum id (map estres_etiqueta) (crear_features leer_fecha tabla_ej) =
     Inr [Some ''estres_severo'', Some ''estres_moderado'', Some ''sin_estres'',
          Some ''sin_estres''] \<and>
   ''sin_estres'' \<noteq> ''no_stress'' \<and> ''estres_moderado'' \<noteq> ''moderate_stress'' \<and>
   ''estres_severo'' \<noteq> ''severe_stress''"
  by (simp add: tabla_ej_ok salida_ej_cols)

section \<open>Null rows and the check of the classes\<close>

lemma csv_ej_ok: "procesar_datos leer_fecha csv_ej = Inr salida_csv"
proof -
  have "\<not> isl (procesar_datos leer_fecha csv_ej)" by code_simp
  then show ?thesis
    unfolding salida_csv_def by (cases "procesar_datos leer_fecha csv_ej") simp_all
qed

lemma salida_csv_cols:
  "map ndvi_tendencia_7d salida_csv = [None, None]"
  "map ndvi_tendencia_14d salida_csv = [None, None]"
  "map soil_humidity salida_csv = [20, 12]"
  "map estres_nivel salida_csv = [0, 2]"
  "map estres_etiqueta salida_csv = [Some ''sin_estres'', Some ''estres_severo'']"
  "length (dropna csv_ej) = 2"
  "dropna_features salida_csv = []"
  by code_simp+

lemma salida_csv_length: "length salida_csv = 2"
  using arg_cong[OF salida_csv_cols(1), of length] by simp

lemma dropna_features_iff: "r \<in> set (dropna_features df) \<longleftrightarrow> r \<in> set df \<and> \<not> fila_nula r"
  by (simp add: dropna_features_def)

text \<open>
  C3, as the code has it. \<open>procesar_datos\<close> drops the rows with an empty cell and keeps and
  labels every other row; the 7-day (14-day) trends of a row are null exactly in the first 7
  (14) rows. Only the \<open>dropna\<close> of \<open>entrenar_modelo\<close> removes the rows with a null feature.
\<close>

theorem C3_null_rows_labelled:
  assumes "procesar_datos p csv = Inr out" and "i < length out"
  shows "length out = length (dropna csv) \<and>
         (ndvi_tendencia_7d (out ! i) = None \<longleftrightarrow> i < 7) \<and>
         (ndvi_tendencia_14d (out ! i) = None \<longleftrightarrow> i < 14) \<and>
         (humedad_tendencia_7d (out ! i) = None \<longleftrightarrow> i < 7) \<and>
         (humedad_tendencia_14d (out ! i) = None \<longleftrightarrow> i < 14) \<and>
         estres_nivel (out ! i) \<in> {0, 1, 2} \<and>
         estres_etiqueta (out ! i) \<noteq> None \<and>
         (out ! i \<in> set (dropna_features out) \<longleftrightarrow> \<not> fila_nula (out ! i)) \<and>
         (fila_nula (out ! i) \<longleftrightarrow> i < 14 \<or> evi_ndvi_ratio (out ! i) = NaN)"
proof -
  from assms(1) have c: "crear_features p (dropna csv) = Inr out"
    by (simp add: procesar_datos_def)
  note n = procesar_datos_nulos[OF assms]
  have e: "estres_nivel (out ! i) \<in> {0, 1, 2}" "estres_etiqueta (out ! i) \<noteq> None"
    using crear_features_etiqueta[OF c assms(2)] by (auto simp: etiquetas_def)
  have m: "out ! i \<in> set out" using assms(2) by simp
  have f: "fila_nula (out ! i) \<longleftrightarrow> i < 14 \<or> evi_ndvi_ratio (out ! i) = NaN"
    unfolding fila_nula_def n by auto
  show ?thesis
    using crear_features_length[OF c] n e f m by (simp add: dropna_features_iff)
qed

theorem C3_null_rows_labelled_witness:
  "procesar_datos leer_fecha csv_ej = Inr salida_csv \<and> 0 < length salida_csv \<and>
   length csv_ej = 3 \<and> length salida_csv = 2 \<and> length (dropna csv_ej) = 2 \<and>
   map ndvi_tendencia_7d salida_csv = [None, None] \<and>
   map estres_nivel salida_csv = [0, 2] \<and>
   dropna_features salida_csv = []"
proof -
  have l: "0 < length salida_csv" by (simp add: salida_csv_length)
  have c: "length csv_ej = 3" by (simp add: csv_ej_def)
  show ?thesis
    using C3_null_rows_labelled[OF csv_ej_ok l] csv_ej_ok l c salida_csv_length
      salida_csv_cols(1,4,6,7)
    by blast
qed

theorem C3_null_rows_counterexample:
  "map_sum id (map ndvi_tendencia_7d) (procesar_datos leer_fecha csv_ej) = Inr [None, None] \<and>
   map_sum id (map ndvi_tendencia_14d) (procesar_datos leer_fecha csv_ej) = Inr [None, None] \<and>
   map_sum id (map estres_nivel) (procesar_datos leer_fecha csv_ej) = Inr [0, 2] \<and>
   map_sum id (map estres_etiqueta) (procesar_datos leer_fecha csv_ej) =
     Inr [Some ''sin_estres'', Some ''estres_severo'']"
  by (simp add: csv_ej_ok salida_csv_cols)

text \<open>
  C4, as the code has it. \<open>crear_features\<close> returns the labelled table, one row for each
  input row, whatever its labels are; \<open>entrenar_modelo\<close> is where too few classes are
  signalled: it returns \<open>None\<close> exactly when the rows it keeps carry fewer than two levels.
\<close>

theorem C4_diversity_checked_in_training:
  assumes "crear_features p df0 = Inr out"
  shows "length out = length df0 \<and>
         (entrenar_modelo fit out = None \<longleftrightarrow>
            nunique (map estres_nivel (dropna_features out)) < 2) \<and>
         (entrenar_modelo fit out = None \<or>
            entrenar_modelo fit out = Some (fit (dropna_features out)))"
  using crear_features_length[OF assms] by (simp add: entrenar_modelo_def Let_def)

theorem C4_diversity_checked_in_training_witness:
  "crear_features leer_fecha tabla_ej = Inr salida_ej \<and>
   length salida_ej = length tabla_ej \<and>
   nunique (map estres_nivel (dropna_features salida_ej)) = 0 \<and>
   entrenar_modelo length salida_ej = None"
proof -
  have n: "nunique (map estres_nivel (dropna_features salida_ej)) = 0" by code_simp
  then have "nunique (map estres_nivel (dropna_features salida_ej)) < 2" by simp
  then show ?thesis
    using C4_diversity_checked_in_training[OF tabla_ej_ok, of length] tabla_ej_ok n by blast
qed

theorem C4_single_class_returned_counterexample:
  "map_sum id (map estres_nivel) (crear_features leer_fecha [obs_spec]) = Inr [0] \<and>
   nunique [0] = 1"
  by code_simp

section \<open>The single-point approximation\<close>

text \<open>
  C1, where the code departs from it. \<open>calcular_features\<close> computes the blend without any
  of the three clamps: for a hot, dry observation the score exceeds 1, where the clamped
  blend of \<open>crear_features\<close> gives 333/350.
\<close>

theorem C1_single_point_deficit_unclamped:
  "valor ''deficit_combinado'' (calcular_features leer_fecha obs_seca) = Inr (Some (1437 / 1400)) \<and>
   (1::real) < 1437 / 1400 \<and>
   deficit (soil_humidity obs_seca) (lst obs_seca) (ndvi obs_seca) = 333 / 350"
  by code_simp

text \<open>
  C9, where the code departs from it. With NDVI = -0.001 the divisor of line 71 is zero and
  the Python division raises.
\<close>

theorem C9_ratio_zero_division:
  "calcular_features leer_fecha obs_ndvi_neg = Inl ZeroDivisionError"
  by (simp add: calcular_features_def obs_ndvi_neg_def)

lemma calcular_features_dict:
  assumes "to_datetime (date datos) = Some ts" and "ndvi datos \<noteq> - 0.001"
  obtains d where
    "calcular_features to_datetime datos = Inr (fold (features_ventana datos) [7, 14] d)"
    and "d ''mes'' = Some (real (month ts))"
    and "d dia_anio_key = Some (real (dayofyear ts))"
    and "d ''dias_desde_inicio'' = Some 0"
    and "d ''evi_ndvi_ratio'' = Some (evi datos / (ndvi datos + 0.001))"
    and "d ''deficit_combinado'' =
           Some ((1 - soil_humidity datos / 35) * 0.5 + ((lst datos - 25) / 20) * 0.3 +
                 (1 - ndvi datos) * 0.2)"
  by (rule that[OF calcular_features_Inr[of to_datetime datos ts, OF assms]])
    (simp_all add: dia_anio_key_def)

lemma calcular_features_ratio:
  assumes "to_datetime (date datos) = Some ts" and "ndvi datos \<noteq> - 0.001"
  shows "valor ''evi_ndvi_ratio'' (calcular_features to_datetime datos) =
           Inr (Some (evi datos / (ndvi datos + 0.001)))"
proof -
  from assms obtain d where
    "calcular_features to_datetime datos = Inr (fold (features_ventana datos) [7, 14] d)"
    and "d ''evi_ndvi_ratio'' = Some (evi datos / (ndvi datos + 0.001))"
    by (rule calcular_features_dict)
  then show ?thesis
    by (simp only: valor_def map_sum.simps features_dict_lookup id_apply)
qed

lemma ratio_ndvi_cero:
  assumes "to_datetime (date datos) = Some ts" and "ndvi datos = 0" and "evi datos = 0.5"
  shows "valor ''evi_ndvi_ratio'' (calcular_features to_datetime datos) = Inr (Some 500)"
  using calcular_features_ratio[of to_datetime datos ts] assms by simp

lemma np_div_ratio:
  "n \<noteq> - 0.001 \<Longrightarrow> np_div e (n + 0.001) = Fin (e / (n + 0.001))"
  "np_div 0.5 (0 + 0.001) = Fin 500"
  "np_div 0.5 (- 0.001 + 0.001) = PInf"
  by (simp_all add: np_div_def)

text \<open>
  C6. When the date is read and the divisor of the ratio is not zero, \<open>calcular_features\<close>
  returns a dictionary whose rolling entries are the observation's own values, whose trends
  and day offset are 0 and whose calendar entries are those of its date.
\<close>

theorem C6_single_point:
  assumes "to_datetime (date datos) = Some ts" and "ndvi datos \<noteq> - 0.001"
  shows "\<exists>f. calcular_features to_datetime datos = Inr f \<and>
           f ''ndvi_promedio_7d'' = Some (ndvi datos) \<and>
           f ''ndvi_promedio_14d'' = Some (ndvi datos) \<and>
           f ''humedad_promedio_7d'' = Some (soil_humidity datos) \<and>
           f ''humedad_promedio_14d'' = Some (soil_humidity datos) \<and>
           f ''tmax_promedio_7d'' = Some (tmax datos) \<and>
           f ''tmax_promedio_14d'' = Some (tmax datos) \<and>
           f ''lst_max_7d'' = Some (lst datos) \<and>
           f ''lst_max_14d'' = Some (lst datos) \<and>
           f ''ndvi_tendencia_7d'' = Some 0 \<and>
           f ''ndvi_tendencia_14d'' = Some 0 \<and>
           f ''humedad_tendencia_7d'' = Some 0 \<and>
           f ''humedad_tendencia_14d'' = Some 0 \<and>
           f ''dias_desde_inicio'' = Some 0 \<and>
           f ''mes'' = Some (real (month ts)) \<and>
           f dia_anio_key = Some (real (dayofyear ts))"
proof -
  from assms obtain d where
    c: "calcular_features to_datetime datos = Inr (fold (features_ventana datos) [7, 14] d)"
    and d: "d ''mes'' = Some (real (month ts))" "d dia_anio_key = Some (real (dayofyear ts))"
      "d ''dias_desde_inicio'' = Some 0"
    by (rule calcular_features_dict)
  show ?thesis
    by (rule exI[of _ "fold (features_ventana datos) [7, 14] d"])
      (simp only: c features_dict_lookup d simp_thms)
qed

theorem C6_single_point_witness:
  "leer_fecha (date obs_spec) = Some \<lparr>year = 2024, month = 6, day = 15\<rparr> \<and>
   ndvi obs_spec \<noteq> - 0.001 \<and>
   valor ''ndvi_promedio_7d'' (calcular_features leer_fecha obs_spec) = Inr (Some 0.6) \<and>
   valor ''ndvi_promedio_14d'' (calcular_features leer_fecha obs_spec) = Inr (Some 0.6) \<and>
   valor ''ndvi_tendencia_7d'' (calcular_features leer_fecha obs_spec) = Inr (Some 0) \<and>
   valor ''ndvi_tendencia_14d'' (calcular_features leer_fecha obs_spec) = Inr (Some 0) \<and>
   valor ''mes'' (calcular_features leer_fecha obs_spec) = Inr (Some 6) \<and>
   valor dia_anio_key (calcular_features leer_fecha obs_spec) = Inr (Some 167) \<and>
   valor ''dias_desde_inicio'' (calcular_features leer_fecha obs_spec) = Inr (Some 0)"
proof -
  have d: "leer_fecha (date obs_spec) = Some \<lparr>year = 2024, month = 6, day = 15\<rparr>"
    by (simp add: obs_spec_def leer_fecha_spec)
  have n: "ndvi obs_spec \<noteq> - 0.001" by (simp add: obs_spec_def)
  have y: "dayofyear \<lparr>year = 2024, month = 6, day = 15\<rparr> = 167" by code_simp
  have v: "ndvi obs_spec = 0.6" by (simp add: obs_spec_def)
  from C6_single_point[of leer_fecha obs_spec "\<lparr>year = 2024, month = 6, day = 15\<rparr>", OF d n] obtain f where f: "calcular_features leer_fecha obs_spec = Inr f"
    and "f ''ndvi_promedio_7d'' = Some (ndvi obs_spec)"
    and "f ''ndvi_promedio_14d'' = Some (ndvi obs_spec)"
    and "f ''ndvi_tendencia_7d'' = Some 0"
    and "f ''ndvi_tendencia_14d'' = Some 0"
    and "f ''dias_desde_inicio'' = Some 0"
    and "f ''mes'' = Some (real (month \<lparr>year = 2024, month = 6, day = 15\<rparr>))"
    and "f dia_anio_key = Some (real (dayofyear \<lparr>year = 2024, month = 6, day = 15\<rparr>))"
    by blast
  then show ?thesis using d n by (simp add: valor_def y v)
qed

end
